theory Spec2Isabelle
  imports Main "HOL-Library.Multiset"
begin

section \<open>Data model\<close>

text \<open>
  The declarations of \<^verbatim>\<open>./types\<close> are imported by \<^verbatim>\<open>App.tsx\<close> but are not part of the
  sources at hand. The enumerations and records below are modelled from the spec (section 3,
  Data Model) and from the way \<^verbatim>\<open>App.tsx\<close> reads and writes the fields.
\<close>

text \<open>Modelled from the spec: the enum \<^verbatim>\<open>MomentType\<close> (study, work, personal, travel, goal).\<close>

datatype MomentType = STUDY | WORK | PERSONAL | TRAVEL | GOAL

text \<open>Modelled from the spec: the enum \<^verbatim>\<open>Priority\<close> (low, medium, high).\<close>

datatype Priority = LOW | MEDIUM | HIGH

text \<open>
  Modelled from the spec: the enum \<^verbatim>\<open>EmotionType\<close>. \<^verbatim>\<open>App.tsx\<close> names four members
  (HAPPY, EXCITED, WORRIED, STRESSED); the spec calls the remaining ones the neutral class.
  \<open>OTHER tag\<close> stands for any member of that class.
\<close>

datatype EmotionType = HAPPY | EXCITED | WORRIED | STRESSED | OTHER string

text \<open>The string literals \<^verbatim>\<open>'active' | 'completed' | 'archived'\<close> of the field \<^verbatim>\<open>status\<close>.\<close>

datatype Status = Active | Completed | Archived

text \<open>The string literals of \<^verbatim>\<open>ViewState\<close>, as the root component of \<^verbatim>\<open>App\<close> matches them.\<close>

datatype ViewState = Dashboard | Create | Details | Edit | Stats | Settings | Memory

text \<open>
  Instants are milliseconds since the epoch (\<^verbatim>\<open>Date.prototype.getTime\<close>). An ISO timestamp
  written by \<^verbatim>\<open>new Date().toISOString()\<close> carries exactly its millisecond value, so
  \<^verbatim>\<open>createdAt\<close>, \<^verbatim>\<open>EmotionLog.date\<close> and \<^verbatim>\<open>completedDate\<close> are kept as that value.

  A calendar date is named by its day number: the number of days between 1970-01-01 and that
  date. Day -719162 is 0001-01-01, day 2932896 is 9999-12-31.
\<close>

type_synonym instant = int
type_synonym dayNumber = int

text \<open>
  The strings the field \<^verbatim>\<open>date\<close> of a moment can hold. \<open>IsoDate d\<close> is a date-only form
  of the ECMAScript date-time format: \<^verbatim>\<open>YYYY-MM-DD\<close> with a four-digit year, the value of an
  \<^verbatim>\<open><input type="date">\<close> for the years 0001 to 9999, and what
  \<^verbatim>\<open>toISOString().split('T')[0]\<close> writes (with a signed six-digit year outside 0000 to
  9999). \<open>LongYear d\<close> is the value of the date input for a year above 9999, as in
  \<^verbatim>\<open>10000-01-01\<close>: an unsigned year of more than four digits, which is not of that format.
\<close>

datatype dateString = IsoDate dayNumber | LongYear dayNumber

text \<open>Modelled from the spec: \<^verbatim>\<open>Task\<close> (id, text, isCompleted).\<close>

record Task =
  id_t :: string
  text_t :: string
  isCompleted :: bool

text \<open>Modelled from the spec: \<^verbatim>\<open>EmotionLog\<close> (id, date, emotion, optional note).\<close>

record EmotionLog =
  id_e :: string
  date_e :: instant
  emotion :: EmotionType
  note_e :: "string option"

text \<open>
  Modelled from the spec: \<^verbatim>\<open>Reflection\<close> (rating, lessons, repeatable, completedDate). The
  rating is a number of stars, 0 while none is chosen.
\<close>

record Reflection =
  rating :: nat
  lessons :: string
  repeatable :: bool
  completedDate :: instant

text \<open>
  Modelled from the spec: \<^verbatim>\<open>Moment\<close>, with the fields the object literal of
  \<^verbatim>\<open>handleSave\<close> writes; \<^verbatim>\<open>reflection\<close> is optional.
\<close>

record Moment =
  id_m :: string
  title :: string
  date_m :: dateString
  type_m :: MomentType
  priority :: Priority
  initialEmotion :: EmotionType
  notes_m :: string
  tasks :: "Task list"
  status :: Status
  createdAt :: instant
  emotionHistory :: "EmotionLog list"
  reflection :: "Reflection option"

text \<open>
  The state of \<^verbatim>\<open>App\<close> that the handlers read and write: the hooks \<^verbatim>\<open>moments\<close>,
  \<^verbatim>\<open>view\<close> and \<^verbatim>\<open>selectedMomentId\<close> (\<^verbatim>\<open>null\<close> is \<open>None\<close>).
\<close>

record AppState =
  moments :: "Moment list"
  view :: ViewState
  selectedMomentId :: "string option"

section \<open>The clock and the time zone\<close>

text \<open>
  \<^verbatim>\<open>getDaysRemaining\<close> and the postpone handler go through \<^verbatim>\<open>Date\<close>, whose local-time
  methods depend on the host: the current instant and the time zone. ECMAScript defines them by
  \<^verbatim>\<open>LocalTime(t) = t + LocalTZA(t, true)\<close> and \<^verbatim>\<open>UTC(t) = t - LocalTZA(t, false)\<close>, where
  \<^verbatim>\<open>LocalTZA\<close> is the offset of local time from UTC in milliseconds, looked up at a UTC
  instant (\<open>tzaUTC\<close>) or at a local time value (\<open>tzaLocal\<close>). \<^verbatim>\<open>TimeClip\<close> (the range
  limit of about 273 thousand years around the epoch) is not modelled.
\<close>

record Host =
  now :: instant
  tzaUTC :: "instant \<Rightarrow> int"
  tzaLocal :: "int \<Rightarrow> int"

definition msPerDay :: int where
  "msPerDay = 1000 * 3600 * 24"

definition Day :: "int \<Rightarrow> int" where
  "Day t = t div msPerDay"

definition TimeWithinDay :: "int \<Rightarrow> int" where
  "TimeWithinDay t = t mod msPerDay"

definition MakeDate :: "int \<Rightarrow> int \<Rightarrow> int" where
  "MakeDate day time = day * msPerDay + time"

definition LocalTime :: "Host \<Rightarrow> instant \<Rightarrow> int" where
  "LocalTime h t = t + tzaUTC h t"

definition UTC :: "Host \<Rightarrow> int \<Rightarrow> instant" where
  "UTC h t = t - tzaLocal h t"

text \<open>
  \<^verbatim>\<open>new Date(s).getTime()\<close> for a date string \<^verbatim>\<open>s\<close>. ECMAScript reads the date-only
  forms of its format as UTC: the result is midnight UTC of that date. It leaves every other
  string to the engine; V8 reads the date input's long-year value as a local time, midnight of
  that date in the host's zone, and that reading is the one modelled.
\<close>

fun parseDate :: "Host \<Rightarrow> dateString \<Rightarrow> instant" where
  "parseDate h (IsoDate d) = MakeDate d 0"
| "parseDate h (LongYear d) = UTC h (MakeDate d 0)"

text \<open>
  \<^verbatim>\<open>d.toISOString().split('T')[0]\<close>: the UTC calendar date of an instant, always in a
  date-only form of the format.
\<close>

definition toISODate :: "instant \<Rightarrow> dateString" where
  "toISODate t = IsoDate (Day t)"

text \<open>
  \<^verbatim>\<open>new Date().setHours(0,0,0,0)\<close>: the instant at which the local calendar day of
  \<open>now\<close> started.
\<close>

definition setHours0 :: "Host \<Rightarrow> instant" where
  "setHours0 h = UTC h (MakeDate (Day (LocalTime h (now h))) 0)"

text \<open>
  \<^verbatim>\<open>new Date().toDateString()\<close> names the local calendar day of \<open>now\<close>; it is kept as
  the number of that day.
\<close>

definition toDateString :: "Host \<Rightarrow> int" where
  "toDateString h = Day (LocalTime h (now h))"

text \<open>
  \<^verbatim>\<open>Math.ceil(a / b)\<close> for integers \<open>a\<close> and a positive \<open>b\<close>. Within the range of
  \<^verbatim>\<open>Date\<close> the floating-point quotient of a difference of instants by \<open>msPerDay\<close> is
  never rounded onto an integer it does not equal, so the ceiling is the exact one.
\<close>

definition ceilDiv :: "int \<Rightarrow> int \<Rightarrow> int" where
  "ceilDiv a b = - ((- a) div b)"

definition getDaysRemaining :: "Host \<Rightarrow> dateString \<Rightarrow> int" where
  "getDaysRemaining h targetDate =
     (let diff = parseDate h targetDate - setHours0 h
      in ceilDiv diff (1000 * 3600 * 24))"

section \<open>The repository: the collection and its mutators\<close>

text \<open>
  \<^verbatim>\<open>activeMoments\<close>: the active moments, sorted ascending by date. \<^verbatim>\<open>Array.prototype.sort\<close>
  is stable, and so is \<open>sort_key\<close>. The comparator parses the dates, so the host is an
  argument.
\<close>

definition activeMoments :: "Host \<Rightarrow> Moment list \<Rightarrow> Moment list" where
  "activeMoments h ms =
     sort_key (\<lambda>m. parseDate h (date_m m)) (filter (\<lambda>m. status m = Active) ms)"

definition addMoment :: "Moment \<Rightarrow> AppState \<Rightarrow> AppState" where
  "addMoment moment s = s\<lparr>moments := moments s @ [moment], view := Dashboard\<rparr>"

definition updateMoment :: "Moment \<Rightarrow> AppState \<Rightarrow> AppState" where
  "updateMoment updatedMoment s =
     s\<lparr>moments := map (\<lambda>m. if id_m m = id_m updatedMoment then updatedMoment else m) (moments s)\<rparr>"

definition deleteMoment :: "string \<Rightarrow> AppState \<Rightarrow> AppState" where
  "deleteMoment i s =
     (let s1 = s\<lparr>moments := filter (\<lambda>m. id_m m \<noteq> i) (moments s)\<rparr>
      in if selectedMomentId s = Some i
         then s1\<lparr>selectedMomentId := None, view := Dashboard\<rparr>
         else s1)"

section \<open>The analytics of the dashboard\<close>


definition veryUrgentMoments :: "Host \<Rightarrow> Moment list \<Rightarrow> Moment list" where
  "veryUrgentMoments h ms =
     filter (\<lambda>m. getDaysRemaining h (date_m m) \<le> 1) (activeMoments h ms)"




section \<open>The emotion data of the statistics view\<close>

text \<open>
  One point of the line chart. The source also stores \<^verbatim>\<open>label\<close>, the locale rendering of
  the same date, for a hidden axis; it is left out.
\<close>

record EmotionPoint =
  date_p :: instant
  score :: nat

text \<open>The score the loop body of \<^verbatim>\<open>emotionData\<close> computes for one log.\<close>

definition emotionScore :: "EmotionType \<Rightarrow> nat" where
  "emotionScore e =
     (let s0 = 3;
          s1 = (if e = HAPPY \<or> e = EXCITED then 5 else s0);
          s2 = (if e = WORRIED \<or> e = STRESSED then 1 else s1)
      in s2)"

definition pushLog :: "EmotionLog \<Rightarrow> EmotionPoint list \<Rightarrow> EmotionPoint list" where
  "pushLog log allLogs = allLogs @ [\<lparr>date_p = date_e log, score = emotionScore (emotion log)\<rparr>]"

definition emotionData :: "Moment list \<Rightarrow> EmotionPoint list" where
  "emotionData ms =
     (let allLogs = fold (\<lambda>m acc. fold pushLog (emotionHistory m) acc) ms []
      in sort_key date_p allLogs)"

section \<open>Creating and editing a moment\<close>

text \<open>
  The value of an \<^verbatim>\<open><input type="date">\<close>: the empty string, or a date string. The test
  \<^verbatim>\<open>!date\<close> of the handlers holds for the empty string only.
\<close>

datatype dateInput = Blank | Picked dateString

text \<open>The hooks of \<^verbatim>\<open>CreateMomentView\<close> that \<^verbatim>\<open>handleSave\<close> reads.\<close>

record CreateForm =
  title_c :: string
  date_c :: dateInput
  type_c :: MomentType
  priority_c :: Priority
  tasks_c :: "string list"
  emotion_c :: EmotionType
  notes_c :: string

text \<open>
  \<^verbatim>\<open>generateId()\<close> draws from \<^verbatim>\<open>Math.random\<close>. A handler receives the ids it will draw
  as a function \<open>gen\<close>: \<open>gen k\<close> is the result of its \<open>k\<close>-th call, in the order in
  which the object literal of \<^verbatim>\<open>handleSave\<close> evaluates them (the moment, its tasks from
  left to right, the first emotion log). Both timestamps of that literal are taken at the same
  millisecond.
\<close>

definition newTasks :: "(nat \<Rightarrow> string) \<Rightarrow> string list \<Rightarrow> Task list" where
  "newTasks gen txts =
     map (\<lambda>(k, txt). \<lparr>id_t = gen (Suc k), text_t = txt, isCompleted = False\<rparr>) (enumerate 0 txts)"

definition handleSave :: "Host \<Rightarrow> (nat \<Rightarrow> string) \<Rightarrow> CreateForm \<Rightarrow> AppState \<Rightarrow> AppState" where
  "handleSave h gen f s =
     (if title_c f = [] then s
      else case date_c f of
        Blank \<Rightarrow> s
      | Picked d \<Rightarrow>
          addMoment
            \<lparr>id_m = gen 0, title = title_c f, date_m = d, type_m = type_c f,
             priority = priority_c f, initialEmotion = emotion_c f, notes_m = notes_c f,
             tasks = newTasks gen (tasks_c f), status = Active, createdAt = now h,
             emotionHistory =
               [\<lparr>id_e = gen (Suc (length (tasks_c f))), date_e = now h, emotion = emotion_c f,
                 note_e = Some ''Initial feeling''\<rparr>],
             reflection = None\<rparr> s)"

text \<open>
  The views of one moment start with
  \<^verbatim>\<open>moments.find(m => m.id === selectedMomentId)\<close> and render nothing (so offer no handler)
  when there is none.
\<close>

definition selectedMoment :: "AppState \<Rightarrow> Moment option" where
  "selectedMoment s = find (\<lambda>m. Some (id_m m) = selectedMomentId s) (moments s)"

text \<open>The hooks of \<^verbatim>\<open>EditMomentView\<close> that \<^verbatim>\<open>handleUpdate\<close> reads.\<close>

record EditForm =
  title_u :: string
  date_u :: dateInput
  type_u :: MomentType
  priority_u :: Priority
  notes_u :: string
  tasks_u :: "Task list"

definition handleUpdate :: "EditForm \<Rightarrow> AppState \<Rightarrow> AppState" where
  "handleUpdate f s =
     (case selectedMoment s of
        None \<Rightarrow> s
      | Some moment \<Rightarrow>
          if title_u f = [] then s
          else
            (case date_u f of
               Blank \<Rightarrow> s
             | Picked d \<Rightarrow>
                 (let updatedMoment =
                        moment\<lparr>title := title_u f, date_m := d, type_m := type_u f,
                          priority := priority_u f, notes_m := notes_u f, tasks := tasks_u f\<rparr>;
                      s1 = updateMoment updatedMoment s
                  in s1\<lparr>view := Details\<rparr>)))"

section \<open>The lifecycle: reflection, tasks, emotions, postponing\<close>

text \<open>
  \<^verbatim>\<open>handleSaveReflection\<close> of \<^verbatim>\<open>MemoryReflectionView\<close>. The hook \<^verbatim>\<open>rating\<close> starts at 0 and
  is set from the five stars; \<^verbatim>\<open>repeatable\<close> starts at \<^verbatim>\<open>null\<close> (\<open>None\<close>), and
  \<^verbatim>\<open>!!repeatable\<close> is true for \<^verbatim>\<open>true\<close> only.
\<close>

definition handleSaveReflection ::
  "Host \<Rightarrow> nat \<Rightarrow> string \<Rightarrow> bool option \<Rightarrow> AppState \<Rightarrow> AppState" where
  "handleSaveReflection h rating' lessons' repeatable' s =
     (case selectedMoment s of
        None \<Rightarrow> s
      | Some moment \<Rightarrow>
          if rating' = 0 then s
          else
            (let reflection' = \<lparr>rating = rating', lessons = lessons',
                   repeatable = (repeatable' = Some True), completedDate = now h\<rparr>;
                 s1 = updateMoment (moment\<lparr>status := Completed, reflection := Some reflection'\<rparr>) s
             in s1\<lparr>view := Dashboard\<rparr>))"

text \<open>The handlers of \<^verbatim>\<open>DetailMomentView\<close>.\<close>

definition isPast :: "Host \<Rightarrow> Moment \<Rightarrow> bool" where
  "isPast h moment = (getDaysRemaining h (date_m moment) < 0 \<and> status moment = Active)"

definition toggleTask :: "string \<Rightarrow> AppState \<Rightarrow> AppState" where
  "toggleTask taskId s =
     (case selectedMoment s of
        None \<Rightarrow> s
      | Some moment \<Rightarrow>
          updateMoment
            (moment\<lparr>tasks := map (\<lambda>t. if id_t t = taskId then t\<lparr>isCompleted := \<not> isCompleted t\<rparr> else t)
                                (tasks moment)\<rparr>) s)"

definition addEmotionLog :: "Host \<Rightarrow> string \<Rightarrow> EmotionType \<Rightarrow> AppState \<Rightarrow> AppState" where
  "addEmotionLog h newId emo s =
     (case selectedMoment s of
        None \<Rightarrow> s
      | Some moment \<Rightarrow>
          updateMoment
            (moment\<lparr>emotionHistory := emotionHistory moment
                       @ [\<lparr>id_e = newId, date_e = now h, emotion = emo, note_e = None\<rparr>]\<rparr>) s)"

definition completeMoment :: "AppState \<Rightarrow> AppState" where
  "completeMoment s = s\<lparr>view := Memory\<rparr>"

text \<open>
  \<^verbatim>\<open>d.setDate(d.getDate() + n)\<close> on the instant \<open>t\<close>. \<^verbatim>\<open>getDate\<close> is the day of the
  month of \<^verbatim>\<open>LocalTime(t)\<close>; \<^verbatim>\<open>setDate(dt)\<close> rebuilds the local time from
  \<^verbatim>\<open>MakeDay(year, month, dt)\<close> and the unchanged time within the day, and converts it back
  with \<^verbatim>\<open>UTC\<close>. \<^verbatim>\<open>MakeDay\<close> counts days past the end of the month into the next one, so
  with \<^verbatim>\<open>dt = getDate() + n\<close> it is the local day number plus \<open>n\<close>.
\<close>

definition addDays :: "Host \<Rightarrow> int \<Rightarrow> instant \<Rightarrow> instant" where
  "addDays h n t =
     (let local = LocalTime h t
      in UTC h (MakeDate (Day local + n) (TimeWithinDay local)))"

text \<open>The date the postpone button writes, and its click handler.\<close>

definition postponedDate :: "Host \<Rightarrow> dateString \<Rightarrow> dateString" where
  "postponedDate h d = toISODate (addDays h 7 (parseDate h d))"

definition handlePostpone :: "Host \<Rightarrow> AppState \<Rightarrow> AppState" where
  "handlePostpone h s =
     (case selectedMoment s of
        None \<Rightarrow> s
      | Some moment \<Rightarrow> updateMoment (moment\<lparr>date_m := postponedDate h (date_m moment)\<rparr>) s)"

text \<open>
  Every handler of \<^verbatim>\<open>App\<close> that writes \<^verbatim>\<open>moments\<close> or the selection, as one action type.
  \<open>step\<close> applies a handler whatever the view, that is, also where the interface does not
  offer its button.
\<close>

datatype Action =
    Save CreateForm "nat \<Rightarrow> string"
  | Update EditForm
  | Delete string
  | Select string
  | ToggleTask string
  | LogEmotion string EmotionType
  | Complete
  | Postpone
  | SaveReflection nat string "bool option"

fun step :: "Host \<Rightarrow> Action \<Rightarrow> AppState \<Rightarrow> AppState" where
  "step h (Save f gen) s = handleSave h gen f s"
| "step h (Update f) s = handleUpdate f s"
| "step h (Delete i) s = deleteMoment i s"
| "step h (Select i) s = s\<lparr>selectedMomentId := Some i, view := Details\<rparr>"
| "step h (ToggleTask i) s = toggleTask i s"
| "step h (LogEmotion i emo) s = addEmotionLog h i emo s"
| "step h Complete s = completeMoment s"
| "step h Postpone s = handlePostpone h s"
| "step h (SaveReflection r l rp) s = handleSaveReflection h r l rp s"

section \<open>The notification check\<close>

text \<open>\<^verbatim>\<open>Notification.permission\<close>: \<^verbatim>\<open>'default'\<close>, \<^verbatim>\<open>'granted'\<close> or \<^verbatim>\<open>'denied'\<close>.\<close>

datatype NotificationPermission = PermissionDefault | Granted | Denied






section \<open>The magic plan\<close>

text \<open>
  The value \<^verbatim>\<open>res.json()\<close> resolves to. Numbers are kept as integers; the handler never
  looks at one.
\<close>

datatype json =
    JNull
  | JBool bool
  | JNum int
  | JStr string
  | JArr "json list"
  | JObj "(string \<times> json) list"

text \<open>
  What the two awaited calls can do: \<^verbatim>\<open>fetch\<close> rejects, \<^verbatim>\<open>res.json()\<close> rejects because
  the body is not JSON, or a value arrives. The handler does not look at the HTTP status.
\<close>

datatype Response = FetchRejected | BodyNotJson | Parsed json

text \<open>
  Types are erased at run time and \<^verbatim>\<open>data\<close> is \<^verbatim>\<open>any\<close>: after \<^verbatim>\<open>setTitle(data.title)\<close>
  the hook holds whatever the response carried, \<^verbatim>\<open>undefined\<close> (\<open>None\<close>) included. This is
  the form of \<^verbatim>\<open>CreateMomentView\<close> as the plan handler writes it.
\<close>

record PlanForm =
  title_p :: "json option"
  type_p :: "json option"
  priority_p :: "json option"
  notes_p :: "json option"
  tasks_p :: "json option"
  showMagicInput :: bool
  magicInput :: string
  isGenerating :: bool

text \<open>
  \<^verbatim>\<open>data.title\<close>, \<^verbatim>\<open>data.type\<close>, \<^verbatim>\<open>data.priority\<close>, \<^verbatim>\<open>data.notes\<close>, \<^verbatim>\<open>data.tasks\<close>:
  a \<^verbatim>\<open>TypeError\<close> (\<open>None\<close>) on \<^verbatim>\<open>null\<close>, the member of an object (the last one of a
  repeated key, as \<^verbatim>\<open>JSON.parse\<close> keeps it), and \<^verbatim>\<open>undefined\<close> on every other value,
  none of whose prototypes has one of these five properties.
\<close>

fun planField :: "json \<Rightarrow> string \<Rightarrow> json option option" where
  "planField JNull k = None"
| "planField (JObj kvs) k = Some (map_of (rev kvs) k)"
| "planField v k = Some None"

text \<open>
  The statements of lines 428 to 455, in order and numbered from 1: the awaited \<^verbatim>\<open>fetch\<close>
  (1), the awaited \<^verbatim>\<open>res.json()\<close> (2), the five setters that read a member of \<^verbatim>\<open>data\<close>
  (3 to 7), and the two setters of constants (8 and 9). \<open>Inl (k, f)\<close>: statement \<open>k\<close>
  throws, and \<open>f\<close> is the form as the statements before it left it. \<open>Inr f\<close>: all nine
  have run.
\<close>

definition planStatements :: "Response \<Rightarrow> PlanForm \<Rightarrow> (nat \<times> PlanForm) + PlanForm" where
  "planStatements res f0 =
     (case res of
        FetchRejected \<Rightarrow> Inl (1, f0)
      | BodyNotJson \<Rightarrow> Inl (2, f0)
      | Parsed data \<Rightarrow>
         (case planField data ''title'' of None \<Rightarrow> Inl (3, f0) | Some v1 \<Rightarrow>
          (let f1 = f0\<lparr>title_p := v1\<rparr> in
           case planField data ''type'' of None \<Rightarrow> Inl (4, f1) | Some v2 \<Rightarrow>
           (let f2 = f1\<lparr>type_p := v2\<rparr> in
            case planField data ''priority'' of None \<Rightarrow> Inl (5, f2) | Some v3 \<Rightarrow>
            (let f3 = f2\<lparr>priority_p := v3\<rparr> in
             case planField data ''notes'' of None \<Rightarrow> Inl (6, f3) | Some v4 \<Rightarrow>
             (let f4 = f3\<lparr>notes_p := v4\<rparr> in
              case planField data ''tasks'' of None \<Rightarrow> Inl (7, f4) | Some v5 \<Rightarrow>
              (let f5 = f4\<lparr>tasks_p := v5\<rparr>
               in Inr (f5\<lparr>showMagicInput := False, magicInput := []\<rparr>))))))))"

text \<open>
  What a click on the plan button leaves: the form, the number of alerts shown, and whether an
  exception has left the handler.
\<close>

record PlanOutcome =
  form :: PlanForm
  alerts :: nat
  escaped :: bool

text \<open>
  Lines 457 to 463 close a \<^verbatim>\<open>try\<close> block, show one alert in \<^verbatim>\<open>catch\<close> and clear
  \<^verbatim>\<open>isGenerating\<close> in \<^verbatim>\<open>finally\<close>. The line that opens the block is not in the file, and
  neither is the header of \<^verbatim>\<open>handleMagicPlan\<close>, the handler the two plan buttons call. So the
  place of that line is an argument: \<open>tryFrom\<close> is the number of the first statement inside
  the block, and statement \<open>k\<close> is inside exactly when \<open>tryFrom \<le> k\<close>. An exception thrown
  inside is caught; one thrown before the block leaves the handler, and neither \<^verbatim>\<open>catch\<close>
  nor \<^verbatim>\<open>finally\<close> runs.
\<close>

definition handleMagicPlan :: "nat \<Rightarrow> Response \<Rightarrow> PlanForm \<Rightarrow> PlanOutcome" where
  "handleMagicPlan tryFrom res f0 =
     (case planStatements res f0 of
        Inl (k, f) \<Rightarrow>
          if tryFrom \<le> k
          then \<lparr>form = f\<lparr>isGenerating := False\<rparr>, alerts = 1, escaped = False\<rparr>
          else \<lparr>form = f, alerts = 0, escaped = True\<rparr>
      | Inr f \<Rightarrow> \<lparr>form = f\<lparr>isGenerating := False\<rparr>, alerts = 0, escaped = False\<rparr>)"




section \<open>Example hosts and moments\<close>

definition msPerHour :: int where
  "msPerHour = 1000 * 3600"

text \<open>A host whose zone keeps one offset from UTC all year.\<close>

definition fixedZone :: "int \<Rightarrow> instant \<Rightarrow> Host" where
  "fixedZone offset t = \<lparr>now = t, tzaUTC = (\<lambda>_. offset), tzaLocal = (\<lambda>_. offset)\<rparr>"

text \<open>
  Riyadh (UTC+3, no daylight saving) on 2024-01-02 at noon local time. Day 19723 is
  2024-01-01, day 19724 is 2024-01-02.
\<close>

definition riyadh :: Host where
  "riyadh = fixedZone (3 * msPerHour) (MakeDate 19724 (9 * msPerHour))"

text \<open>
  Cairo in April 2024: UTC+2 until the clocks went from 00:00 to 01:00 on Friday 2024-04-26
  (day 19839), UTC+3 after that. A local time inside the skipped hour is read with the offset
  before the change. The clock stands at noon local time of 2024-04-25 (day 19838).
\<close>

definition cairo :: Host where
  "cairo =
     \<lparr>now = MakeDate 19838 (10 * msPerHour),
      tzaUTC = (\<lambda>t. if t < MakeDate 19838 (22 * msPerHour) then 2 * msPerHour else 3 * msPerHour),
      tzaLocal = (\<lambda>t. if t < MakeDate 19839 msPerHour then 2 * msPerHour else 3 * msPerHour)\<rparr>"

text \<open>London on 2024-01-02 at noon (UTC+0 in winter).\<close>

definition london :: Host where
  "london = fixedZone 0 (MakeDate 19724 (12 * msPerHour))"

definition exam :: Moment where
  "exam =
     \<lparr>id_m = ''m1'', title = ''Exam'', date_m = IsoDate 19729, type_m = STUDY, priority = HIGH,
      initialEmotion = WORRIED, notes_m = [], tasks = [], status = Active,
      createdAt = MakeDate 19720 0,
      emotionHistory = [\<lparr>id_e = ''e1'', date_e = MakeDate 19720 0, emotion = WORRIED,
                         note_e = Some ''Initial feeling''\<rparr>],
      reflection = None\<rparr>"

definition trip :: Moment where
  "trip =
     \<lparr>id_m = ''m2'', title = ''Trip'', date_m = IsoDate 19724, type_m = TRAVEL, priority = LOW,
      initialEmotion = EXCITED, notes_m = [], tasks = [], status = Active,
      createdAt = MakeDate 19700 0,
      emotionHistory = [\<lparr>id_e = ''e2'', date_e = MakeDate 19700 0, emotion = EXCITED,
                         note_e = Some ''Initial feeling''\<rparr>],
      reflection = None\<rparr>"

text \<open>A moment dated 2024-04-22 (day 19835), three days before the clock of \<open>cairo\<close>.\<close>

definition visit :: Moment where
  "visit =
     \<lparr>id_m = ''m3'', title = ''Visit'', date_m = IsoDate 19835, type_m = PERSONAL, priority = MEDIUM,
      initialEmotion = HAPPY, notes_m = [], tasks = [], status = Active,
      createdAt = MakeDate 19800 0,
      emotionHistory = [\<lparr>id_e = ''e3'', date_e = MakeDate 19800 0, emotion = HAPPY,
                         note_e = Some ''Initial feeling''\<rparr>],
      reflection = None\<rparr>"

definition home :: AppState where
  "home = \<lparr>moments = [exam, trip], view = Details, selectedMomentId = Some ''m1''\<rparr>"


definition abroad :: AppState where
  "abroad = \<lparr>moments = [visit], view = Details, selectedMomentId = Some ''m3''\<rparr>"

text \<open>A create form without a title, an edit form whose date has been cleared.\<close>

definition untitled :: CreateForm where
  "untitled =
     \<lparr>title_c = [], date_c = Picked (IsoDate 19729), type_c = PERSONAL, priority_c = MEDIUM,
      tasks_c = [''Pack''], emotion_c = HAPPY, notes_c = []\<rparr>"

definition undated :: EditForm where
  "undated =
     \<lparr>title_u = ''Exam'', date_u = Blank, type_u = STUDY, priority_u = HIGH,
      notes_u = [], tasks_u = []\<rparr>"


section \<open>The invariant of the notification loop\<close>


section \<open>Days remaining\<close>

lemmas time_defs = msPerDay_def msPerHour_def Day_def TimeWithinDay_def MakeDate_def
  LocalTime_def UTC_def toISODate_def setHours0_def toDateString_def ceilDiv_def

text \<open>
  In a zone with one offset all year and for a date in a date-only form of the format, the
  result is the difference of the target date and the local calendar day, plus the offset
  rounded up to whole days: nothing for a zone at or west of UTC, one day for a zone east of it.
\<close>

lemma getDaysRemaining_fixedZone:
  "getDaysRemaining (fixedZone offset t) (IsoDate d)
     = d - toDateString (fixedZone offset t) + ceilDiv offset msPerDay"
proof -
  have "(- (d * 86400000 - (k * 86400000 - offset))) div 86400000
          = (k - d) + (- offset) div 86400000" for k :: int
  proof -
    have "- (d * 86400000 - (k * 86400000 - offset)) = (- offset) + (k - d) * 86400000"
      by (simp add: algebra_simps)
    then show ?thesis by simp
  qed
  then show ?thesis
    by (simp add: getDaysRemaining_def fixedZone_def time_defs Let_def)
qed

lemma getDaysRemaining_west:
  assumes "- msPerDay < offset" "offset \<le> 0"
  shows "getDaysRemaining (fixedZone offset t) (IsoDate d) = d - toDateString (fixedZone offset t)"
proof -
  have "ceilDiv offset msPerDay = 0"
    using assms by (simp add: ceilDiv_def msPerDay_def div_pos_pos_trivial)
  then show ?thesis by (simp add: getDaysRemaining_fixedZone)
qed

lemma getDaysRemaining_east:
  assumes "0 < offset" "offset < msPerDay"
  shows "getDaysRemaining (fixedZone offset t) (IsoDate d)
         = d - toDateString (fixedZone offset t) + 1"
proof -
  have "(- offset) div 86400000 = - 1"
    using assms by (simp add: msPerDay_def zdiv_zminus1_eq_if div_pos_pos_trivial mod_pos_pos_trivial)
  then have "ceilDiv offset msPerDay = 1"
    by (simp add: ceilDiv_def msPerDay_def)
  then show ?thesis by (simp add: getDaysRemaining_fixedZone)
qed

text \<open>
  The date input's long-year value is read as a local midnight, as the start of today is: in a
  zone with one offset all year the result is the plain difference of the day numbers.
\<close>

lemma getDaysRemaining_longYear:
  "getDaysRemaining (fixedZone offset t) (LongYear d) = d - toDateString (fixedZone offset t)"
proof -
  have "(- (d * 86400000 - k * 86400000)) div 86400000 = k - d" for k :: int
  proof -
    have "- (d * 86400000 - k * 86400000) = (k - d) * 86400000"
      by (simp add: algebra_simps)
    then show ?thesis by simp
  qed
  then show ?thesis
    by (simp add: getDaysRemaining_def fixedZone_def time_defs Let_def)
qed

text \<open>
  Claim C1. The claim: \<open>getDaysRemaining\<close> is the number of calendar days from the current
  day to the target date, negative exactly when the target date has passed. The code subtracts
  the local midnight of today from the UTC midnight of the target date. In Riyadh, at noon of
  2024-01-02 (local day 19724), the target date 2024-01-01 has passed and the result is 0, not
  negative; the target date 2024-01-02, today, gives 1.
\<close>

theorem getDaysRemaining_riyadh:
  "toDateString riyadh = 19724
   \<and> getDaysRemaining riyadh (IsoDate 19723) = 0
   \<and> getDaysRemaining riyadh (IsoDate 19724) = 1"
  by (simp add: getDaysRemaining_def riyadh_def fixedZone_def time_defs)

section \<open>Stress score and vibe\<close>








section \<open>The emotion timeline\<close>

lemma fold_pushLog:
  "fold pushLog ls acc =
   acc @ map (\<lambda>l. \<lparr>date_p = date_e l, score = emotionScore (emotion l)\<rparr>) ls"
  by (induction ls arbitrary: acc) (simp_all add: pushLog_def)

lemma fold_moments:
  "fold (\<lambda>m acc. fold pushLog (emotionHistory m) acc) ms acc =
   acc @ concat (map (\<lambda>m. map (\<lambda>l. \<lparr>date_p = date_e l, score = emotionScore (emotion l)\<rparr>)
                            (emotionHistory m)) ms)"
  by (induction ms arbitrary: acc) (simp_all add: fold_pushLog)

text \<open>
  Claim C8. The score is 5 for happy and excited, 1 for worried and stressed, 3 for every other
  emotion; the emotion data holds exactly the (timestamp, score) points of all logs of all
  moments, and is sorted ascending by timestamp whatever the order of the logs.
\<close>

theorem emotion_timeline:
  "emotionScore HAPPY = 5 \<and> emotionScore EXCITED = 5
   \<and> emotionScore WORRIED = 1 \<and> emotionScore STRESSED = 1
   \<and> (\<forall>tag. emotionScore (OTHER tag) = 3)
   \<and> mset (emotionData ms) =
       mset (concat (map (\<lambda>m. map (\<lambda>l. \<lparr>date_p = date_e l, score = emotionScore (emotion l)\<rparr>)
                                 (emotionHistory m)) ms))
   \<and> sorted (map date_p (emotionData ms))"
  by (simp add: emotionData_def fold_moments) (simp add: emotionScore_def)

section \<open>Validation of the forms\<close>

text \<open>
  Claim C6. With an empty title or an empty date, saving the create form and saving the edit
  form return without a word: the whole state of the application, the collection included, is
  what it was.
\<close>

theorem empty_title_or_date_rejected:
  assumes "title_c f = [] \<or> date_c f = Blank"
      and "title_u g = [] \<or> date_u g = Blank"
  shows "handleSave h gen f s = s \<and> handleUpdate g s = s"
  using assms
  by (auto simp: handleSave_def handleUpdate_def split: option.splits dateInput.splits)

theorem empty_title_or_date_rejected_witness:
  "title_c untitled = [] \<and> date_u undated = Blank
   \<and> handleSave london (\<lambda>k. ''id'') untitled home = home \<and> handleUpdate undated home = home"
proof -
  have c: "title_c untitled = []" by (simp add: untitled_def)
  have u: "date_u undated = Blank" by (simp add: undated_def)
  from c u empty_title_or_date_rejected [of untitled undated london "\<lambda>k. ''id''" home]
  show ?thesis by blast
qed

section \<open>Completion\<close>

lemma selectedMoment_SomeD:
  "selectedMoment s = Some mo \<Longrightarrow> mo \<in> set (moments s) \<and> selectedMomentId s = Some (id_m mo)"
  by (auto simp: selectedMoment_def find_Some_iff)

lemma updateMoment_member:
  assumes "m' \<in> set (moments (updateMoment u s))"
  shows "m' = u \<and> (\<exists>x\<in>set (moments s). id_m x = id_m u)
       \<or> m' \<in> set (moments s) \<and> id_m m' \<noteq> id_m u"
  using assms by (auto simp: updateMoment_def split: if_splits)

lemma updateMoment_keeps_status:
  assumes "mo \<in> set (moments s)" "id_m u = id_m mo" "status u = status mo"
      and "m' \<in> set (moments (updateMoment u s))"
  shows "\<exists>x\<in>set (moments s). id_m x = id_m m' \<and> status x = status m'"
  using updateMoment_member [OF assms(4)] assms(1-3) by auto

text \<open>
  No handler but the reflection one changes a status: a moment of the new collection is active,
  or the old collection has a moment of its id and its status.
\<close>

lemma step_keeps_status:
  assumes "m' \<in> set (moments (step h a s))"
      and "\<And>r l rp. a \<noteq> SaveReflection r l rp"
  shows "status m' = Active
       \<or> (\<exists>x\<in>set (moments s). id_m x = id_m m' \<and> status x = status m')"
proof (cases a)
  case (Save f gen)
  with assms(1) show ?thesis
    by (auto simp: handleSave_def addMoment_def split: if_splits dateInput.splits)
next
  case (Update f)
  show ?thesis
  proof (cases "selectedMoment s")
    case None
    with Update assms(1) show ?thesis by (auto simp: handleUpdate_def)
  next
    case (Some mo)
    then have mo: "mo \<in> set (moments s)" by (simp add: selectedMoment_SomeD)
    from Update Some assms(1) show ?thesis
      by (auto simp: handleUpdate_def Let_def split: if_splits dateInput.splits
               dest!: updateMoment_keeps_status [OF mo, rotated 2])
  qed
next
  case (Delete i)
  with assms(1) show ?thesis
    by (auto simp: deleteMoment_def Let_def split: if_splits)
next
  case (Select i)
  with assms(1) show ?thesis by auto
next
  case (ToggleTask i)
  show ?thesis
  proof (cases "selectedMoment s")
    case None
    with ToggleTask assms(1) show ?thesis by (auto simp: toggleTask_def)
  next
    case (Some mo)
    then have mo: "mo \<in> set (moments s)" by (simp add: selectedMoment_SomeD)
    from ToggleTask Some assms(1) show ?thesis
      by (auto simp: toggleTask_def dest!: updateMoment_keeps_status [OF mo, rotated 2])
  qed
next
  case (LogEmotion i emo)
  show ?thesis
  proof (cases "selectedMoment s")
    case None
    with LogEmotion assms(1) show ?thesis by (auto simp: addEmotionLog_def)
  next
    case (Some mo)
    then have mo: "mo \<in> set (moments s)" by (simp add: selectedMoment_SomeD)
    from LogEmotion Some assms(1) show ?thesis
      by (auto simp: addEmotionLog_def dest!: updateMoment_keeps_status [OF mo, rotated 2])
  qed
next
  case Complete
  with assms(1) show ?thesis by (auto simp: completeMoment_def)
next
  case Postpone
  show ?thesis
  proof (cases "selectedMoment s")
    case None
    with Postpone assms(1) show ?thesis by (auto simp: handlePostpone_def)
  next
    case (Some mo)
    then have mo: "mo \<in> set (moments s)" by (simp add: selectedMoment_SomeD)
    from Postpone Some assms(1) show ?thesis
      by (auto simp: handlePostpone_def dest!: updateMoment_keeps_status [OF mo, rotated 2])
  qed
next
  case (SaveReflection r l rp)
  with assms(2) show ?thesis by blast
qed

lemma distinct_ids_eq:
  "distinct (map id_m ms) \<Longrightarrow> x \<in> set ms \<Longrightarrow> y \<in> set ms \<Longrightarrow> id_m x = id_m y \<Longrightarrow> x = y"
  by (meson distinct_map inj_onD)

lemma handleSaveReflection_zero: "handleSaveReflection h 0 l rp s = s"
  by (simp add: handleSaveReflection_def split: option.splits)

lemma handleSaveReflection_moments:
  assumes "selectedMoment s = Some mo" "r \<noteq> 0"
  shows "moments (handleSaveReflection h r l rp s) =
         map (\<lambda>x. if id_m x = id_m mo
                   then mo\<lparr>status := Completed,
                           reflection := Some \<lparr>rating = r, lessons = l,
                             repeatable = (rp = Some True), completedDate = now h\<rparr>\<rparr>
                   else x) (moments s)"
  using assms by (simp add: handleSaveReflection_def updateMoment_def Let_def)

lemma selectedMoment_distinct:
  assumes "distinct (map id_m (moments s))" "m \<in> set (moments s)"
      and "selectedMomentId s = Some (id_m m)"
  shows "selectedMoment s = Some m"
proof (cases "selectedMoment s")
  case None
  with assms(2,3) show ?thesis
    by (auto simp: selectedMoment_def find_None_iff)
next
  case (Some mo)
  then have "mo \<in> set (moments s)" "selectedMomentId s = Some (id_m mo)"
    by (simp_all add: selectedMoment_SomeD)
  with assms have "mo = m" by (auto intro: distinct_ids_eq)
  with Some show ?thesis by simp
qed

text \<open>
  Claim C3. In a collection with unique ids, for an active moment: saving a reflection with
  rating 0 is rejected and leaves the state as it was (the moment stays active, no reflection is
  attached); saving one with a rating of at least 1 for the selected moment sets its status to
  completed and attaches the reflection, and touches no other moment; and whichever handler
  runs, if the moment of that id is completed afterwards, the handler was the reflection one,
  called with a rating of at least 1, and the moment carries that reflection.
\<close>

theorem completion_requires_rating:
  assumes "distinct (map id_m (moments s))"
      and "m \<in> set (moments s)"
      and "status m = Active"
  shows "handleSaveReflection h 0 l rp s = s
       \<and> (selectedMomentId s = Some (id_m m) \<and> 1 \<le> r \<longrightarrow>
            moments (handleSaveReflection h r l rp s) =
            map (\<lambda>x. if id_m x = id_m m
                      then m\<lparr>status := Completed,
                             reflection := Some \<lparr>rating = r, lessons = l,
                               repeatable = (rp = Some True), completedDate = now h\<rparr>\<rparr>
                      else x) (moments s))
       \<and> (\<forall>a m'. m' \<in> set (moments (step h a s)) \<and> id_m m' = id_m m \<and> status m' = Completed \<longrightarrow>
            (\<exists>r' l' rp'. a = SaveReflection r' l' rp' \<and> 1 \<le> r'
               \<and> reflection m' = Some \<lparr>rating = r', lessons = l',
                    repeatable = (rp' = Some True), completedDate = now h\<rparr>))"
proof (intro conjI allI impI)
  show "handleSaveReflection h 0 l rp s = s" by (rule handleSaveReflection_zero)
next
  assume sel: "selectedMomentId s = Some (id_m m) \<and> 1 \<le> r"
  then have "selectedMoment s = Some m"
    using assms(1,2) by (simp add: selectedMoment_distinct)
  moreover from sel have "r \<noteq> 0" by simp
  ultimately show "moments (handleSaveReflection h r l rp s) =
            map (\<lambda>x. if id_m x = id_m m
                      then m\<lparr>status := Completed,
                             reflection := Some \<lparr>rating = r, lessons = l,
                               repeatable = (rp = Some True), completedDate = now h\<rparr>\<rparr>
                      else x) (moments s)"
    by (rule handleSaveReflection_moments)
next
  fix a m'
  assume h: "m' \<in> set (moments (step h a s)) \<and> id_m m' = id_m m \<and> status m' = Completed"
  have old: "x \<in> set (moments s) \<Longrightarrow> id_m x = id_m m' \<Longrightarrow> status x \<noteq> Completed" for x
    using assms h distinct_ids_eq [OF assms(1), of x m] by auto
  show "\<exists>r' l' rp'. a = SaveReflection r' l' rp' \<and> 1 \<le> r'
               \<and> reflection m' = Some \<lparr>rating = r', lessons = l',
                    repeatable = (rp' = Some True), completedDate = now h\<rparr>"
  proof (cases "\<exists>r' l' rp'. a = SaveReflection r' l' rp'")
    case False
    then have "status m' = Active
             \<or> (\<exists>x\<in>set (moments s). id_m x = id_m m' \<and> status x = status m')"
      using step_keeps_status [of m' h a s] h by blast
    with h old show ?thesis by auto
  next
    case True
    then obtain r' l' rp' where a: "a = SaveReflection r' l' rp'" by blast
    show ?thesis
    proof (cases "selectedMoment s")
      case None
      with a h have "m' \<in> set (moments s)" by (simp add: handleSaveReflection_def)
      with old h show ?thesis by auto
    next
      case (Some mo)
      show ?thesis
      proof (cases "r' = 0")
        case True
        with a h have "m' \<in> set (moments s)" by (simp add: handleSaveReflection_zero)
        with old h show ?thesis by auto
      next
        case False
        from h a have "m' \<in> set (moments (handleSaveReflection h r' l' rp' s))" by simp
        then have "m' = mo\<lparr>status := Completed,
                           reflection := Some \<lparr>rating = r', lessons = l',
                             repeatable = (rp' = Some True), completedDate = now h\<rparr>\<rparr>
                   \<or> m' \<in> set (moments s)"
          unfolding handleSaveReflection_moments [OF Some False] by (auto split: if_splits)
        with old h a False show ?thesis by auto
      qed
    qed
  qed
qed

theorem completion_requires_rating_witness:
  "distinct (map id_m (moments home)) \<and> exam \<in> set (moments home) \<and> status exam = Active
   \<and> selectedMomentId home = Some (id_m exam)
   \<and> handleSaveReflection london 0 ''fine'' None home = home
   \<and> moments (handleSaveReflection london 4 ''fine'' (Some True) home) =
       [exam\<lparr>status := Completed,
             reflection := Some \<lparr>rating = 4, lessons = ''fine'', repeatable = True,
                                completedDate = now london\<rparr>\<rparr>, trip]
   \<and> \<not> (\<exists>m'. m' \<in> set (moments (step london Postpone home))
             \<and> id_m m' = id_m exam \<and> status m' = Completed)"
proof -
  have d: "distinct (map id_m (moments home))" by (simp add: home_def exam_def trip_def)
  have e: "exam \<in> set (moments home)" by (simp add: home_def)
  have a: "status exam = Active" by (simp add: exam_def)
  have s: "selectedMomentId home = Some (id_m exam)" by (simp add: home_def exam_def)
  note t = completion_requires_rating [OF d e a, of london "''fine''" _ 4]
  have z: "handleSaveReflection london 0 ''fine'' None home = home"
    using t [of None] by simp
  have c: "moments (handleSaveReflection london 4 ''fine'' (Some True) home) =
       [exam\<lparr>status := Completed,
             reflection := Some \<lparr>rating = 4, lessons = ''fine'', repeatable = True,
                                completedDate = now london\<rparr>\<rparr>, trip]"
    using t [of "Some True"] s by (simp add: home_def exam_def trip_def)
  have p: "\<not> (\<exists>m'. m' \<in> set (moments (step london Postpone home))
             \<and> id_m m' = id_m exam \<and> status m' = Completed)"
    using t [of None] by blast
  from d e a s z c p show ?thesis by blast
qed

section \<open>Postponing\<close>

text \<open>
  In a zone with one offset all year the postponed date of a date in a date-only form of the
  format is seven days on.
\<close>

lemma postponedDate_fixedZone:
  "postponedDate (fixedZone offset t) (IsoDate d) = IsoDate (d + 7)"
proof -
  have "(d * 86400000 + offset) div 86400000 * 86400000
          + (d * 86400000 + offset) mod 86400000 = d * 86400000 + offset"
    by simp
  then have "((d * 86400000 + offset) div 86400000 + 7) * 86400000
          + (d * 86400000 + offset) mod 86400000 - offset = (d + 7) * 86400000"
    by (simp add: algebra_simps)
  then show ?thesis
    by (simp add: postponedDate_def addDays_def fixedZone_def time_defs Let_def)
qed

text \<open>The handler writes the date of the selected moment and nothing else.\<close>

lemma handlePostpone_moments:
  assumes "selectedMoment s = Some mo"
  shows "moments (handlePostpone h s) =
         map (\<lambda>x. if id_m x = id_m mo then mo\<lparr>date_m := postponedDate h (date_m mo)\<rparr> else x)
           (moments s)"
  using assms by (simp add: handlePostpone_def updateMoment_def)

text \<open>
  Claim C5. The claim: postponing a past-due active moment moves its date forward by exactly 7
  calendar days and changes nothing else. The handler adds 7 to the local day of the month of
  the UTC midnight of the date and reads the UTC date of the result. In Cairo on 2024-04-25 the
  moment dated 2024-04-22 (day 19835) is past due; the clocks go forward on 2024-04-26, and the
  handler writes 2024-04-28 (day 19841): six days on, not seven. Status and the other fields
  are kept.
\<close>

theorem postpone_cairo:
  "isPast cairo visit
   \<and> date_m visit = IsoDate 19835
   \<and> moments (handlePostpone cairo abroad) = [visit\<lparr>date_m := IsoDate 19841\<rparr>]"
proof -
  have d: "postponedDate cairo (IsoDate 19835) = IsoDate 19841"
    by (simp add: postponedDate_def addDays_def cairo_def time_defs Let_def)
  have p: "isPast cairo visit"
    by (simp add: isPast_def getDaysRemaining_def cairo_def visit_def time_defs Let_def)
  have s: "selectedMoment abroad = Some visit"
    by (simp add: selectedMoment_def abroad_def visit_def)
  have v: "date_m visit = IsoDate 19835" by (simp add: visit_def)
  from d p v show ?thesis
    unfolding handlePostpone_moments [OF s] by (simp add: abroad_def)
qed

section \<open>Notifications\<close>

















section \<open>The magic plan\<close>

text \<open>
  When all nine statements run, nothing is thrown: wherever the \<^verbatim>\<open>try\<close> line stood, no
  alert is shown.
\<close>

lemma handleMagicPlan_completes:
  assumes "planStatements res f = Inr f'"
  shows "handleMagicPlan tryFrom res f
         = \<lparr>form = f'\<lparr>isGenerating := False\<rparr>, alerts = 0, escaped = False\<rparr>"
  using assms by (simp add: handleMagicPlan_def)

text \<open>
  Only the first three statements can throw, and they do so before any setter has run.
\<close>

lemma planStatements_throw:
  assumes "planStatements res f = Inl (k, f')"
  shows "f' = f \<and> 1 \<le> k \<and> k \<le> 3"
proof (cases res)
  case FetchRejected
  with assms show ?thesis by (simp add: planStatements_def)
next
  case BodyNotJson
  with assms show ?thesis by (simp add: planStatements_def)
next
  case (Parsed data)
  with assms show ?thesis
    by (cases data) (simp_all add: planStatements_def)
qed




section \<open>Update by id\<close>

lemma map_replace_absent:
  "u \<notin> f ` set xs \<Longrightarrow> map (\<lambda>m. if f m = u then v else m) xs = xs"
  by (induction xs) auto

text \<open>
  Claim C10. For every collection and every moment whose id does not occur in it,
  \<open>updateMoment\<close> leaves the whole state, and so the collection, exactly as it was: it
  replaces by id and never inserts.
\<close>

theorem updateMoment_absent_id:
  assumes "id_m u \<notin> id_m ` set (moments s)"
  shows "updateMoment u s = s"
  using assms by (simp add: updateMoment_def map_replace_absent)

theorem updateMoment_absent_id_witness:
  "id_m visit \<notin> id_m ` set (moments home) \<and> updateMoment visit home = home"
proof -
  have h: "id_m visit \<notin> id_m ` set (moments home)"
    by (simp add: visit_def home_def exam_def trip_def)
  from h updateMoment_absent_id [OF h] show ?thesis by (rule conjI)
qed

end
